theory Spec2Isabelle
  imports Main
begin

section \<open>Clerk JWT authentication middleware (server/app/app/middleware.py)\<close>

text \<open>
  The module is glue between a web framework and four collaborators: the cache
  (\<^verbatim>\<open>django.core.cache\<close>), the identity provider reached over HTTP
  (\<^verbatim>\<open>requests.get\<close>), the JWT library (\<^verbatim>\<open>RSAAlgorithm.from_jwk\<close>,
  \<^verbatim>\<open>jwt.decode\<close>) and the relational store (\<^verbatim>\<open>User.objects\<close>,
  \<^verbatim>\<open>Profile.objects\<close>, \<^verbatim>\<open>UserActivity.objects\<close>).
  The embedding keeps the control flow of every function of the module and makes the
  collaborators explicit:
  \<^item> the cache and the store are fields of a \<open>world\<close> that every function takes and
    returns; the world also holds the trace of outbound HTTP requests and of rows
    created, in the order the code performs them;
  \<^item> the provider and the JWT library are parameters (\<open>env\<close>): a response for each
    request, a public key (or a failure) for each JWK, a payload (or an exception) for
    each token and key;
  \<^item> every exception the code raises or lets through is a value of \<open>py_exc\<close>, and a
    function that can raise returns \<open>py_exc + result\<close> (\<open>Inl\<close> the exception).
  Logging, \<^verbatim>\<open>print\<close> and the timing calls (\<^verbatim>\<open>time.time\<close>) have no effect on results
  and are left out. Transport failures of \<^verbatim>\<open>requests.get\<close> and a body that is not JSON
  are outside the model: a response always arrives and carries a JSON document.
\<close>

subsection \<open>JSON documents and Python's operations on them\<close>

text \<open>
  What \<^verbatim>\<open>response.json()\<close> returns and what the cache stores. Numbers are integers
  (the one number the code reads is a millisecond timestamp); an object is its list of
  members.
\<close>

datatype json =
    JNull
  | JBool bool
  | JNum int
  | JStr string
  | JArr "json list"
  | JObj "(string \<times> json) list"

text \<open>Python's truth test (\<^verbatim>\<open>if x:\<close>, \<^verbatim>\<open>if not x:\<close>): \<^verbatim>\<open>None\<close>, \<^verbatim>\<open>False\<close>, zero and
  every empty string, list and dict are false.\<close>

fun truthy :: "json \<Rightarrow> bool" where
  "truthy JNull = False"
| "truthy (JBool b) = b"
| "truthy (JNum n) = (n \<noteq> 0)"
| "truthy (JStr s) = (s \<noteq> [])"
| "truthy (JArr xs) = (xs \<noteq> [])"
| "truthy (JObj kvs) = (kvs \<noteq> [])"

text \<open>The exceptions that the module raises itself or lets through.\<close>

datatype py_exc =
    AuthenticationFailed string
  | KeyError
  | IndexError
  | TypeError
  | ValueError
  | DoesNotExist
  | MultipleObjectsReturned
  | IntegrityError
  | InvalidKeyError
  | PyJWTError

text \<open>\<^verbatim>\<open>x["k"]\<close>: a dict gives the member or raises KeyError; any other JSON value raises
  TypeError (a list or a string wants an integer index, the rest is not subscriptable).\<close>

fun getitem_key :: "json \<Rightarrow> string \<Rightarrow> py_exc + json" where
  "getitem_key (JObj kvs) k = (case map_of kvs k of None \<Rightarrow> Inl KeyError | Some v \<Rightarrow> Inr v)"
| "getitem_key JNull k = Inl TypeError"
| "getitem_key (JBool b) k = Inl TypeError"
| "getitem_key (JNum n) k = Inl TypeError"
| "getitem_key (JStr s) k = Inl TypeError"
| "getitem_key (JArr xs) k = Inl TypeError"

text \<open>\<^verbatim>\<open>x[0]\<close>: the first element of a list (IndexError when empty), the first character of a
  string (IndexError when empty); a dict decoded from JSON has string keys only, so the
  key \<open>0\<close> is a KeyError; the rest is not subscriptable.\<close>

fun getitem_0 :: "json \<Rightarrow> py_exc + json" where
  "getitem_0 (JArr []) = Inl IndexError"
| "getitem_0 (JArr (x # xs)) = Inr x"
| "getitem_0 (JStr []) = Inl IndexError"
| "getitem_0 (JStr (c # cs)) = Inr (JStr [c])"
| "getitem_0 (JObj kvs) = Inl KeyError"
| "getitem_0 JNull = Inl TypeError"
| "getitem_0 (JBool b) = Inl TypeError"
| "getitem_0 (JNum n) = Inl TypeError"

text \<open>\<^verbatim>\<open>xs[i]\<close> on a Python list, for an index \<open>i \<ge> 0\<close>.\<close>

definition list_getitem :: "'a list \<Rightarrow> nat \<Rightarrow> py_exc + 'a" where
  "list_getitem xs i = (if i < length xs then Inr (xs ! i) else Inl IndexError)"

text \<open>\<^verbatim>\<open>s.split(sep)\<close> for a one-character separator: the pieces between the
  occurrences of \<open>sep\<close>, empty pieces included; a string without \<open>sep\<close> is one piece.\<close>

fun split :: "char \<Rightarrow> string \<Rightarrow> string list" where
  "split sep [] = [[]]"
| "split sep (c # cs) =
     (if c = sep then [] # split sep cs
      else (case split sep cs of
              [] \<Rightarrow> [[c]]
            | p # ps \<Rightarrow> (c # p) # ps))"

text \<open>
  \<^verbatim>\<open>datetime.datetime.fromtimestamp(x / 1000, tz=pytz.UTC)\<close>: the instant \<open>x\<close>
  milliseconds after the epoch. \<open>x\<close> has to be a number (\<^verbatim>\<open>True\<close> and \<^verbatim>\<open>False\<close> count as
  1 and 0 in Python), otherwise the division raises TypeError; an instant outside the
  years 1 to 9999 is refused (ValueError stands for the refusals Python has there).
\<close>

datatype datetime = UtcMillis int

definition fromtimestamp_ms :: "json \<Rightarrow> py_exc + datetime" where
  "fromtimestamp_ms x =
     (case x of
        JNum n \<Rightarrow>
          (if - 62135596800000 \<le> n \<and> n < 253402300800000 then Inr (UtcMillis n)
           else Inl ValueError)
      | JBool b \<Rightarrow> Inr (UtcMillis (if b then 1 else 0))
      | _ \<Rightarrow> Inl TypeError)"

subsection \<open>The collaborators\<close>

record response =
  status_code :: nat
  body :: json

datatype public_key = RSAPublicKey nat nat

text \<open>The decoded token payload. The code reads the \<^verbatim>\<open>sub\<close> claim only; it is absent or
  a string (a JWT subject is a string).\<close>

record payload =
  sub :: "string option"

text \<open>What \<^verbatim>\<open>jwt.decode\<close> can raise, as the \<^verbatim>\<open>except\<close> clauses of \<^verbatim>\<open>decode_jwt\<close> tell them
  apart: \<^verbatim>\<open>ExpiredSignatureError\<close>, \<^verbatim>\<open>DecodeError\<close> (with its subclasses, a failed
  signature check among them), any other \<^verbatim>\<open>InvalidTokenError\<close>, and an exception outside
  that hierarchy, which no clause catches.\<close>

datatype jwt_exc = ExpiredSignatureError | DecodeError | InvalidTokenError | OtherError

text \<open>
  The configuration (\<^verbatim>\<open>os.getenv\<close>, both variables set) and the two external services:
  \<open>http_get url headers\<close> is the provider's answer to \<^verbatim>\<open>requests.get(url, headers=...)\<close>,
  \<open>from_jwk\<close> is \<^verbatim>\<open>RSAAlgorithm.from_jwk\<close> (\<open>None\<close>: it raises InvalidKeyError),
  \<open>jwt_decode token key\<close> is
  \<^verbatim>\<open>jwt.decode(token, key, algorithms=["RS256"], options={"verify_signature": True})\<close>.
\<close>

record env =
  CLERK_FRONTEND_API_URL :: string
  CLERK_SECRET_KEY :: string
  http_get :: "string \<Rightarrow> (string \<times> string) list \<Rightarrow> response"
  from_jwk :: "json \<Rightarrow> public_key option"
  jwt_decode :: "string \<Rightarrow> public_key \<Rightarrow> jwt_exc + payload"

definition CLERK_API_URL :: string where
  "CLERK_API_URL = ''https://api.clerk.com/v1''"

definition CACHE_KEY :: string where
  "CACHE_KEY = ''jwks_data''"

subsection \<open>The store and the cache\<close>

text \<open>
  Modelled from the spec: the models \<^verbatim>\<open>User\<close>, \<^verbatim>\<open>Profile\<close> and \<^verbatim>\<open>UserActivity\<close>
  (\<^verbatim>\<open>user/models.py\<close>) are not among the sources. A local user is a row with a primary
  key and the four fields that \<^verbatim>\<open>decode_jwt\<close> passes to \<^verbatim>\<open>User.objects.create\<close>; the three
  values copied from the provider are kept as the JSON values they were, since the code
  converts nothing. A profile and an activity row refer to their user by its primary
  key. The migration under \<^verbatim>\<open>user/migrations\<close> makes \<^verbatim>\<open>username\<close> unique.
\<close>

record user =
  pk :: nat
  username :: string
  first_name :: json
  last_name :: json
  email :: json

record profile =
  profile_user :: nat

record user_activity =
  activity_user :: nat

text \<open>One effect on the outside: an HTTP request sent, or a row created.\<close>

datatype effect =
    HttpGet string "(string \<times> string) list"
  | UserCreate user
  | ProfileCreate profile
  | UserActivityCreate user_activity

text \<open>A cache entry is the stored value and the timeout given to \<^verbatim>\<open>cache.set\<close>
  (\<open>None\<close>: no timeout argument).\<close>

record world =
  cache :: "string \<rightharpoonup> json \<times> nat option"
  users :: "user list"
  profiles :: "profile list"
  activities :: "user_activity list"
  effects :: "effect list"

text \<open>\<^verbatim>\<open>cache.get(key)\<close>: the stored value, \<^verbatim>\<open>None\<close> on a miss.\<close>

definition cache_get :: "world \<Rightarrow> string \<Rightarrow> json" where
  "cache_get w key = (case cache w key of None \<Rightarrow> JNull | Some (v, t) \<Rightarrow> v)"

text \<open>\<^verbatim>\<open>cache.set(key, v)\<close> and \<^verbatim>\<open>cache.set(key, v, timeout)\<close>.\<close>

definition cache_set :: "world \<Rightarrow> string \<Rightarrow> json \<Rightarrow> nat option \<Rightarrow> world" where
  "cache_set w key v timeout = w\<lparr>cache := (cache w)(key \<mapsto> (v, timeout))\<rparr>"

text \<open>\<^verbatim>\<open>requests.get\<close>: the request is recorded, the provider's response returned.\<close>

definition requests_get ::
  "env \<Rightarrow> world \<Rightarrow> string \<Rightarrow> (string \<times> string) list \<Rightarrow> response \<times> world" where
  "requests_get e w url hdrs =
     (http_get e url hdrs, w\<lparr>effects := effects w @ [HttpGet url hdrs]\<rparr>)"

text \<open>\<^verbatim>\<open>User.objects.get(username=name)\<close>: the one matching row; \<^verbatim>\<open>User.DoesNotExist\<close>
  when there is none, \<^verbatim>\<open>MultipleObjectsReturned\<close> when there are several.\<close>

definition User_objects_get :: "world \<Rightarrow> string \<Rightarrow> py_exc + user" where
  "User_objects_get w name =
     (case filter (\<lambda>u. username u = name) (users w) of
        [] \<Rightarrow> Inl DoesNotExist
      | [u] \<Rightarrow> Inr u
      | u # v # rest \<Rightarrow> Inl MultipleObjectsReturned)"

text \<open>A primary key for a new row: above every key in the table.\<close>

definition fresh_pk :: "user list \<Rightarrow> nat" where
  "fresh_pk us = Suc (foldr max (map pk us) 0)"

text \<open>\<^verbatim>\<open>User.objects.create(username=..., first_name=..., last_name=..., email=...)\<close>:
  IntegrityError when the username is taken (the unique constraint), otherwise the new
  row is appended.\<close>

definition User_objects_create ::
  "world \<Rightarrow> string \<Rightarrow> json \<Rightarrow> json \<Rightarrow> json \<Rightarrow> py_exc + user \<times> world" where
  "User_objects_create w name fn ln em =
     (if name \<in> set (map username (users w)) then Inl IntegrityError
      else
        (let u = \<lparr>pk = fresh_pk (users w), username = name,
                  first_name = fn, last_name = ln, email = em\<rparr>
         in Inr (u, w\<lparr>users := users w @ [u], effects := effects w @ [UserCreate u]\<rparr>)))"

text \<open>\<^verbatim>\<open>Profile.objects.create(user=user)\<close> and \<^verbatim>\<open>UserActivity.objects.create(user=user)\<close>.\<close>

definition Profile_objects_create :: "world \<Rightarrow> user \<Rightarrow> world" where
  "Profile_objects_create w u =
     (let p = \<lparr>profile_user = pk u\<rparr>
      in w\<lparr>profiles := profiles w @ [p], effects := effects w @ [ProfileCreate p]\<rparr>)"

definition UserActivity_objects_create :: "world \<Rightarrow> user \<Rightarrow> world" where
  "UserActivity_objects_create w u =
     (let a = \<lparr>activity_user = pk u\<rparr>
      in w\<lparr>activities := activities w @ [a],
           effects := effects w @ [UserActivityCreate a]\<rparr>)"

subsection \<open>ClerkSDK\<close>

text \<open>The dict that \<^verbatim>\<open>fetch_user_info\<close> returns beside its flag.\<close>

record user_info =
  info_email_address :: json
  info_first_name :: json
  info_last_name :: json
  info_last_login :: "datetime option"

text \<open>
  The dict literal of lines 37 to 44 (over the cached value) and of lines 55 to 62 (over
  the response body), the same expression in both places. Its entries are evaluated in
  order, so the first failing subscript decides the exception.
\<close>

definition user_info_of :: "json \<Rightarrow> py_exc + user_info" where
  "user_info_of data =
     (case getitem_key data ''email_addresses'' of Inl x \<Rightarrow> Inl x | Inr addrs \<Rightarrow>
      case getitem_0 addrs of Inl x \<Rightarrow> Inl x | Inr addr \<Rightarrow>
      case getitem_key addr ''email_address'' of Inl x \<Rightarrow> Inl x | Inr em \<Rightarrow>
      case getitem_key data ''first_name'' of Inl x \<Rightarrow> Inl x | Inr fn \<Rightarrow>
      case getitem_key data ''last_name'' of Inl x \<Rightarrow> Inl x | Inr ln \<Rightarrow>
      case getitem_key data ''last_sign_in_at'' of Inl x \<Rightarrow> Inl x | Inr ts \<Rightarrow>
      case fromtimestamp_ms ts of Inl x \<Rightarrow> Inl x | Inr dt \<Rightarrow>
        Inr \<lparr>info_email_address = em, info_first_name = fn, info_last_name = ln,
             info_last_login = Some dt\<rparr>)"

definition user_info_key :: "string \<Rightarrow> string" where
  "user_info_key user_id = ''user_info_'' @ user_id"

definition user_info_url :: "string \<Rightarrow> string" where
  "user_info_url user_id = CLERK_API_URL @ ''/users/'' @ user_id"

definition user_info_headers :: "env \<Rightarrow> (string \<times> string) list" where
  "user_info_headers e = [(''Authorization'', ''Bearer '' @ CLERK_SECRET_KEY e)]"

definition fetch_user_info ::
  "env \<Rightarrow> world \<Rightarrow> string \<Rightarrow> (py_exc + user_info \<times> bool) \<times> world" where
  "fetch_user_info e w user_id =
     (let cached = cache_get w (user_info_key user_id) in
      if truthy cached then
        (case user_info_of cached of
           Inl x \<Rightarrow> (Inl x, w)
         | Inr info \<Rightarrow> (Inr (info, True), w))
      else
        (let (resp, w1) = requests_get e w (user_info_url user_id) (user_info_headers e) in
         if status_code resp = 200 then
           (let data = body resp;
                w2 = cache_set w1 (user_info_key user_id) data (Some (60 * 60 * 24)) in
            case user_info_of data of
              Inl x \<Rightarrow> (Inl x, w2)
            | Inr info \<Rightarrow> (Inr (info, True), w2))
         else
           (Inr (\<lparr>info_email_address = JStr [], info_first_name = JStr [],
                   info_last_name = JStr [], info_last_login = None\<rparr>, False), w1)))"

definition jwks_url :: "env \<Rightarrow> string" where
  "jwks_url e = CLERK_FRONTEND_API_URL e @ ''/.well-known/jwks.json''"

definition get_jwks :: "env \<Rightarrow> world \<Rightarrow> (py_exc + json) \<times> world" where
  "get_jwks e w =
     (let jwks_data = cache_get w CACHE_KEY in
      if \<not> truthy jwks_data then
        (let (resp, w1) = requests_get e w (jwks_url e) [] in
         if status_code resp = 200 then
           (Inr (body resp), cache_set w1 CACHE_KEY (body resp) None)
         else (Inl (AuthenticationFailed ''Failed to fetch JWKS.''), w1))
      else (Inr jwks_data, w))"

subsection \<open>JWTAuthenticationMiddleware\<close>

text \<open>Line 111: \<^verbatim>\<open>RSAAlgorithm.from_jwk(jwks_data["keys"][0])\<close>. The token is no argument
  of it.\<close>

definition public_key_of :: "env \<Rightarrow> json \<Rightarrow> py_exc + public_key" where
  "public_key_of e jwks_data =
     (case getitem_key jwks_data ''keys'' of Inl x \<Rightarrow> Inl x | Inr ks \<Rightarrow>
      case getitem_0 ks of Inl x \<Rightarrow> Inl x | Inr k \<Rightarrow>
      case from_jwk e k of None \<Rightarrow> Inl InvalidKeyError | Some key \<Rightarrow> Inr key)"

text \<open>Lines 113 to 126: the \<^verbatim>\<open>try\<close> around \<^verbatim>\<open>jwt.decode\<close> and its three \<^verbatim>\<open>except\<close>
  clauses.\<close>

fun jwt_failure :: "jwt_exc \<Rightarrow> py_exc" where
  "jwt_failure ExpiredSignatureError = AuthenticationFailed ''Token has expired.''"
| "jwt_failure DecodeError = AuthenticationFailed ''Token decode error.''"
| "jwt_failure InvalidTokenError = AuthenticationFailed ''Invalid token.''"
| "jwt_failure OtherError = PyJWTError"

definition decode_payload :: "env \<Rightarrow> string \<Rightarrow> public_key \<Rightarrow> py_exc + payload" where
  "decode_payload e token key =
     (case jwt_decode e token key of Inl x \<Rightarrow> Inl (jwt_failure x) | Inr p \<Rightarrow> Inr p)"

text \<open>Lines 132 to 151: the body of \<^verbatim>\<open>if user_id:\<close>, the lookup and the creation of the
  local user with its profile and activity rows.\<close>

definition get_or_create_user :: "env \<Rightarrow> world \<Rightarrow> string \<Rightarrow> (py_exc + user) \<times> world" where
  "get_or_create_user e w user_id =
     (case User_objects_get w user_id of
        Inr u \<Rightarrow> (Inr u, w)
      | Inl DoesNotExist \<Rightarrow>
          (case fetch_user_info e w user_id of
             (Inl x, w1) \<Rightarrow> (Inl x, w1)
           | (Inr (info, found), w1) \<Rightarrow>
               (case User_objects_create w1 user_id (info_first_name info)
                       (info_last_name info) (info_email_address info) of
                  Inl x \<Rightarrow> (Inl x, w1)
                | Inr (u, w2) \<Rightarrow>
                    (Inr u, UserActivity_objects_create (Profile_objects_create w2 u) u)))
      | Inl x \<Rightarrow> (Inl x, w))"

definition decode_jwt :: "env \<Rightarrow> world \<Rightarrow> string \<Rightarrow> (py_exc + user option) \<times> world" where
  "decode_jwt e w token =
     (case get_jwks e w of
        (Inl x, w1) \<Rightarrow> (Inl x, w1)
      | (Inr jwks_data, w1) \<Rightarrow>
          (case public_key_of e jwks_data of
             Inl x \<Rightarrow> (Inl x, w1)
           | Inr key \<Rightarrow>
               (case decode_payload e token key of
                  Inl x \<Rightarrow> (Inl x, w1)
                | Inr p \<Rightarrow>
                    (case sub p of
                       None \<Rightarrow> (Inr None, w1)
                     | Some user_id \<Rightarrow>
                         (if user_id = [] then (Inr None, w1)
                          else
                            (case get_or_create_user e w1 user_id of
                               (Inl x, w2) \<Rightarrow> (Inl x, w2)
                             | (Inr u, w2) \<Rightarrow> (Inr (Some u), w2)))))))"

text \<open>The request: its headers (\<^verbatim>\<open>request.headers.get\<close> gives \<^verbatim>\<open>None\<close> for an absent
  one).\<close>

record request =
  headers :: "string \<rightharpoonup> string"

text \<open>\<^verbatim>\<open>authenticate\<close> returns \<^verbatim>\<open>None\<close> or the pair \<^verbatim>\<open>(user, None)\<close>.\<close>

definition authenticate ::
  "env \<Rightarrow> world \<Rightarrow> request \<Rightarrow> (py_exc + (user \<times> unit option) option) \<times> world" where
  "authenticate e w req =
     (case headers req ''Authorization'' of
        None \<Rightarrow> (Inr None, w)
      | Some auth_header \<Rightarrow>
          (if auth_header = [] then (Inr None, w)
           else
             (case list_getitem (split (CHR '' '') auth_header) 1 of
                Inl x \<Rightarrow> (Inl (AuthenticationFailed ''Bearer token not provided.''), w)
              | Inr token \<Rightarrow>
                  (case decode_jwt e w token of
                     (Inl x, w1) \<Rightarrow> (Inl x, w1)
                   | (Inr None, w1) \<Rightarrow> (Inr None, w1)
                   | (Inr (Some u), w1) \<Rightarrow> (Inr (Some (u, None)), w1)))))"

subsection \<open>Notions used to state the properties\<close>

text \<open>The second space-separated component of a header value, said without \<open>split\<close>:
  what stands between the first space and the next one (or the end).\<close>

definition second_component :: "string \<Rightarrow> string" where
  "second_component h =
     takeWhile (\<lambda>c. c \<noteq> CHR '' '') (tl (dropWhile (\<lambda>c. c \<noteq> CHR '' '') h))"

text \<open>What \<^verbatim>\<open>authenticate\<close> makes of the result of \<^verbatim>\<open>decode_jwt\<close> (lines 100 to 105):
  an exception goes through, \<^verbatim>\<open>None\<close> stays \<^verbatim>\<open>None\<close>, a user becomes \<^verbatim>\<open>(user, None)\<close>.\<close>

definition with_credentials ::
  "(py_exc + user option) \<times> world \<Rightarrow> (py_exc + (user \<times> unit option) option) \<times> world" where
  "with_credentials r =
     (case r of
        (Inl x, w1) \<Rightarrow> (Inl x, w1)
      | (Inr None, w1) \<Rightarrow> (Inr None, w1)
      | (Inr (Some u), w1) \<Rightarrow> (Inr (Some (u, None)), w1))"

text \<open>
  What the JWT library establishes about a token: under which keys its signature
  verifies, whether its expiry time has passed, and the claims it carries. The library
  is not part of this repository; \<^verbatim>\<open>jwt.decode\<close> with \<^verbatim>\<open>verify_signature\<close> verifies the
  signature before it validates the claims, a failed signature check being
  \<^verbatim>\<open>InvalidSignatureError\<close> (a \<^verbatim>\<open>DecodeError\<close>) and a passed expiry time
  \<^verbatim>\<open>ExpiredSignatureError\<close>. \<open>signature_then_expiry e token key facts\<close> says that the
  library of \<open>e\<close> answers for this token and key as that order gives for the facts; it
  is a hypothesis wherever a statement speaks of expiry and signature validity.
\<close>

record token_facts =
  signature_valid :: "public_key \<Rightarrow> bool"
  expired :: bool
  claims :: payload

definition signature_then_expiry :: "env \<Rightarrow> string \<Rightarrow> public_key \<Rightarrow> token_facts \<Rightarrow> bool" where
  "signature_then_expiry e token key facts \<longleftrightarrow>
     jwt_decode e token key =
       (if \<not> signature_valid facts key then Inl DecodeError
        else if expired facts then Inl ExpiredSignatureError
        else Inr (claims facts))"

subsection \<open>A concrete provider, key set and world\<close>

text \<open>
  A provider that publishes a key set of two keys, knows the user \<^verbatim>\<open>user_123\<close> and
  answers 404 for anything else; a JWT library for which the token \<^verbatim>\<open>expired\<close> is
  expired and the token \<^verbatim>\<open>by_k2\<close> verifies under the second key only; a world with an
  empty cache and an empty store. The properties below are instantiated on them.
\<close>

definition user_123_body :: json where
  "user_123_body =
     JObj [(''email_addresses'', JArr [JObj [(''email_address'', JStr ''a@b.com'')]]),
           (''first_name'', JStr ''A''),
           (''last_name'', JStr ''B''),
           (''last_sign_in_at'', JNum 1700000000000)]"

definition example_jwks :: json where
  "example_jwks = JObj [(''keys'', JArr [JObj [(''kid'', JStr ''k1'')], JObj [(''kid'', JStr ''k2'')]])]"

definition example_env :: env where
  "example_env =
     \<lparr>CLERK_FRONTEND_API_URL = ''https://clerk.example.com'',
      CLERK_SECRET_KEY = ''sk_test'',
      http_get = (\<lambda>url hdrs.
         if url = ''https://clerk.example.com/.well-known/jwks.json''
         then \<lparr>status_code = 200, body = example_jwks\<rparr>
         else if url = ''https://api.clerk.com/v1/users/user_123''
         then \<lparr>status_code = 200, body = user_123_body\<rparr>
         else \<lparr>status_code = 404, body = JNull\<rparr>),
      from_jwk = (\<lambda>j.
         if j = JObj [(''kid'', JStr ''k1'')] then Some (RSAPublicKey 1 65537)
         else if j = JObj [(''kid'', JStr ''k2'')] then Some (RSAPublicKey 2 65537)
         else None),
      jwt_decode = (\<lambda>token key.
         if token = ''expired'' then Inl ExpiredSignatureError
         else if token = ''by_k2'' \<and> key = RSAPublicKey 2 65537
         then Inr \<lparr>sub = Some ''user_123''\<rparr>
         else Inl DecodeError)\<rparr>"

definition empty_world :: world where
  "empty_world = \<lparr>cache = Map.empty, users = [], profiles = [], activities = [], effects = []\<rparr>"

text \<open>The user that the first sight of \<^verbatim>\<open>user_123\<close> creates in the empty world, and the
  world afterwards.\<close>

definition example_user :: user where
  "example_user =
     \<lparr>pk = 1, username = ''user_123'', first_name = JStr ''A'',
      last_name = JStr ''B'', email = JStr ''a@b.com''\<rparr>"

definition provisioned_world :: world where
  "provisioned_world =
     \<lparr>cache = [''user_info_user_123'' \<mapsto> (user_123_body, Some 86400)],
      users = [example_user],
      profiles = [\<lparr>profile_user = 1\<rparr>],
      activities = [\<lparr>activity_user = 1\<rparr>],
      effects = [HttpGet ''https://api.clerk.com/v1/users/user_123''
                   [(''Authorization'', ''Bearer sk_test'')],
                 UserCreate example_user,
                 ProfileCreate \<lparr>profile_user = 1\<rparr>,
                 UserActivityCreate \<lparr>activity_user = 1\<rparr>]\<rparr>"

text \<open>A provider that is down (every request is answered 500), and one whose JWKS
  endpoint answers 204 with no content.\<close>

definition failing_env :: env where
  "failing_env = example_env\<lparr>http_get := (\<lambda>url hdrs. \<lparr>status_code = 500, body = JNull\<rparr>)\<rparr>"

definition no_content_env :: env where
  "no_content_env = example_env\<lparr>http_get := (\<lambda>url hdrs. \<lparr>status_code = 204, body = JNull\<rparr>)\<rparr>"

text \<open>The world whose cache holds \<open>v\<close> under \<^verbatim>\<open>jwks_data\<close>, stored with no timeout, and
  nothing else.\<close>

definition cached_world :: "json \<Rightarrow> world" where
  "cached_world v = empty_world\<lparr>cache := [CACHE_KEY \<mapsto> (v, None)]\<rparr>"

text \<open>An expired token for \<^verbatim>\<open>user_123\<close> signed by the key \<open>signer\<close>, and a JWT library
  that checks the signature first: to it the token \<^verbatim>\<open>expired_by_k1\<close> is such a token
  signed by the first key of the published set, \<^verbatim>\<open>expired_by_k2\<close> one signed by the
  second.\<close>

definition expired_token :: "public_key \<Rightarrow> token_facts" where
  "expired_token signer =
     \<lparr>signature_valid = (\<lambda>key. key = signer), expired = True,
      claims = \<lparr>sub = Some ''user_123''\<rparr>\<rparr>"

definition checking_env :: env where
  "checking_env =
     example_env\<lparr>jwt_decode := (\<lambda>token key.
        if token = ''expired_by_k1'' \<and> key = RSAPublicKey 1 65537 then Inl ExpiredSignatureError
        else if token = ''expired_by_k2'' \<and> key = RSAPublicKey 2 65537
        then Inl ExpiredSignatureError
        else Inl DecodeError)\<rparr>"

section \<open>Properties\<close>

subsection \<open>Auxiliary facts\<close>

text \<open>\<open>split\<close> yields the text before the first separator, then the pieces of the
  rest.\<close>

lemma split_nonempty: "split sep s \<noteq> []"
  by (induction s) (auto split: list.splits)

lemma split_no_sep: "sep \<notin> set s \<Longrightarrow> split sep s = [s]"
  by (induction s) auto

lemma split_hd: "hd (split sep s) = takeWhile (\<lambda>c. c \<noteq> sep) s"
  by (induction s) (auto split: list.splits simp: split_nonempty)

lemma split_with_sep:
  "sep \<in> set s \<Longrightarrow>
   split sep s = takeWhile (\<lambda>c. c \<noteq> sep) s # split sep (tl (dropWhile (\<lambda>c. c \<noteq> sep) s))"
  by (induction s) (auto split: list.splits simp: split_nonempty)

lemma split_second:
  assumes "sep \<in> set s"
  shows "list_getitem (split sep s) 1 =
         Inr (takeWhile (\<lambda>c. c \<noteq> sep) (tl (dropWhile (\<lambda>c. c \<noteq> sep) s)))"
proof -
  let ?r = "tl (dropWhile (\<lambda>c. c \<noteq> sep) s)"
  obtain p ps where ps: "split sep ?r = p # ps"
    using split_nonempty [of sep ?r] by (cases "split sep ?r") auto
  have "p = takeWhile (\<lambda>c. c \<noteq> sep) ?r"
    using split_hd [of sep ?r] ps by simp
  then show ?thesis
    using split_with_sep [OF assms] ps by (simp add: list_getitem_def)
qed

lemma getitem_key_not_auth: "getitem_key x k \<noteq> Inl (AuthenticationFailed m)"
  by (cases x) (auto split: option.splits)

lemma getitem_0_not_auth: "getitem_0 x \<noteq> Inl (AuthenticationFailed m)"
  by (cases x rule: getitem_0.cases) auto

lemma fromtimestamp_ms_not_auth: "fromtimestamp_ms x \<noteq> Inl (AuthenticationFailed m)"
  by (auto simp: fromtimestamp_ms_def split: json.splits)

lemma user_info_of_not_auth: "user_info_of d \<noteq> Inl (AuthenticationFailed m)"
  by (auto simp: user_info_of_def getitem_key_not_auth getitem_0_not_auth
      fromtimestamp_ms_not_auth split: sum.splits)

lemma fetch_user_info_not_auth: "fst (fetch_user_info e w u) \<noteq> Inl (AuthenticationFailed m)"
  by (auto simp: fetch_user_info_def Let_def requests_get_def user_info_of_not_auth
      split: sum.splits prod.splits)

lemma get_or_create_user_not_auth:
  "fst (get_or_create_user e w u) \<noteq> Inl (AuthenticationFailed m)"
  using fetch_user_info_not_auth [of e w u m]
  by (auto simp: get_or_create_user_def User_objects_get_def User_objects_create_def Let_def
      split: sum.splits prod.splits list.splits py_exc.splits if_splits)

text \<open>Which exceptions each function can raise: only \<open>get_jwks\<close> and the \<^verbatim>\<open>except\<close>
  clauses raise \<^verbatim>\<open>AuthenticationFailed\<close>, each with its own message.\<close>

lemma get_jwks_auth_message:
  "fst (get_jwks e w) = Inl (AuthenticationFailed m) \<Longrightarrow> m = ''Failed to fetch JWKS.''"
  by (auto simp: get_jwks_def Let_def requests_get_def split: if_splits)

lemma public_key_of_not_auth: "public_key_of e j \<noteq> Inl (AuthenticationFailed m)"
  by (auto simp: public_key_of_def getitem_key_not_auth getitem_0_not_auth
      split: sum.splits option.splits)

lemma decode_payload_auth_message:
  "decode_payload e t k = Inl (AuthenticationFailed m) \<Longrightarrow>
   m = ''Token has expired.'' \<or> m = ''Token decode error.'' \<or> m = ''Invalid token.''"
  by (auto simp: decode_payload_def split: sum.splits elim: jwt_failure.elims)

lemma decode_jwt_auth_message:
  assumes "fst (decode_jwt e w t) = Inl (AuthenticationFailed m)"
  shows "m = ''Failed to fetch JWKS.'' \<or> m = ''Token has expired.'' \<or>
         m = ''Token decode error.'' \<or> m = ''Invalid token.''"
proof (cases "get_jwks e w")
  case (Pair r w1)
  show ?thesis
  proof (cases r)
    case (Inl x)
    with Pair assms show ?thesis
      using get_jwks_auth_message [of e w m] by (simp add: decode_jwt_def)
  next
    case (Inr jwks)
    note jw = Pair Inr
    show ?thesis
    proof (cases "public_key_of e jwks")
      case (Inl x)
      with jw assms show ?thesis
        using public_key_of_not_auth [of e jwks m] by (simp add: decode_jwt_def)
    next
      case (Inr key)
      note pk = this
      show ?thesis
      proof (cases "decode_payload e t key")
        case (Inl x)
        with jw pk assms show ?thesis
          using decode_payload_auth_message [of e t key m] by (simp add: decode_jwt_def)
      next
        case (Inr p)
        have "get_or_create_user e w1 u \<noteq> (Inl (AuthenticationFailed m), w2)" for u w2
          using get_or_create_user_not_auth [of e w1 u m] by auto
        with Inr jw pk assms show ?thesis
          by (auto simp: decode_jwt_def split: option.splits if_splits prod.splits sum.splits)
      qed
    qed
  qed
qed

text \<open>Lookups in the user table.\<close>

lemma no_user_filter:
  "name \<notin> set (map username us) \<Longrightarrow> filter (\<lambda>u. username u = name) us = []"
  by (induction us) auto

lemma one_user_filter:
  "distinct (map username us) \<Longrightarrow> u \<in> set us \<Longrightarrow>
   filter (\<lambda>v. username v = username u) us = [u]"
proof (induction us)
  case Nil
  then show ?case by simp
next
  case (Cons a us)
  show ?case
  proof (cases "a = u")
    case True
    with Cons.prems have "username u \<notin> set (map username us)" by simp
    then have "filter (\<lambda>v. username v = username u) us = []" by (rule no_user_filter)
    with True show ?thesis by simp
  next
    case False
    with Cons.prems have "u \<in> set us" by simp
    with Cons.prems have "username a \<noteq> username u" by force
    with Cons \<open>u \<in> set us\<close> show ?thesis by simp
  qed
qed

lemma User_objects_get_absent:
  "name \<notin> set (map username (users w)) \<Longrightarrow> User_objects_get w name = Inl DoesNotExist"
  by (simp add: User_objects_get_def no_user_filter)

lemma User_objects_get_present:
  "distinct (map username (users w)) \<Longrightarrow> u \<in> set (users w) \<Longrightarrow>
   User_objects_get w (username u) = Inr u"
  by (simp add: User_objects_get_def one_user_filter)

text \<open>The example provider, evaluated.\<close>

lemma example_jwks_url:
  "jwks_url example_env = ''https://clerk.example.com/.well-known/jwks.json''"
  by (simp add: jwks_url_def example_env_def)

lemma example_get_jwks:
  "get_jwks example_env empty_world
     = (Inr example_jwks,
        empty_world\<lparr>cache := [CACHE_KEY \<mapsto> (example_jwks, None)],
          effects := [HttpGet ''https://clerk.example.com/.well-known/jwks.json'' []]\<rparr>)"
  by (simp add: get_jwks_def cache_get_def requests_get_def jwks_url_def cache_set_def
      example_env_def empty_world_def)

lemma example_public_key: "public_key_of example_env example_jwks = Inr (RSAPublicKey 1 65537)"
  by (simp add: public_key_of_def example_jwks_def example_env_def)

lemma user_info_of_user_123:
  "user_info_of user_123_body =
     Inr \<lparr>info_email_address = JStr ''a@b.com'', info_first_name = JStr ''A'',
          info_last_name = JStr ''B'', info_last_login = Some (UtcMillis 1700000000000)\<rparr>"
  by (simp add: user_info_of_def user_123_body_def fromtimestamp_ms_def)

lemma example_user_info_url:
  "user_info_url ''user_123'' = ''https://api.clerk.com/v1/users/user_123''"
  by (simp add: user_info_url_def CLERK_API_URL_def)

lemma example_user_info_headers:
  "user_info_headers example_env = [(''Authorization'', ''Bearer sk_test'')]"
  by (simp add: user_info_headers_def example_env_def)

lemma example_provisioning:
  "get_or_create_user example_env empty_world ''user_123'' = (Inr example_user, provisioned_world)"
proof -
  have h: "http_get example_env ''https://api.clerk.com/v1/users/user_123'' hdrs
           = \<lparr>status_code = 200, body = user_123_body\<rparr>" for hdrs
    by (simp add: example_env_def)
  have f: "fetch_user_info example_env empty_world ''user_123'' =
           (Inr (\<lparr>info_email_address = JStr ''a@b.com'', info_first_name = JStr ''A'',
                   info_last_name = JStr ''B'',
                   info_last_login = Some (UtcMillis 1700000000000)\<rparr>, True),
            \<lparr>cache = [''user_info_user_123'' \<mapsto> (user_123_body, Some 86400)],
             users = [], profiles = [], activities = [],
             effects = [HttpGet ''https://api.clerk.com/v1/users/user_123''
                    [(''Authorization'', ''Bearer sk_test'')]]\<rparr>)"
    by (simp add: fetch_user_info_def requests_get_def user_info_of_user_123 cache_get_def
        example_user_info_url user_info_key_def example_user_info_headers h cache_set_def
        empty_world_def)
  have g: "User_objects_get empty_world ''user_123'' = Inl DoesNotExist"
    by (simp add: User_objects_get_def empty_world_def)
  show ?thesis
    by (simp add: get_or_create_user_def g f User_objects_create_def fresh_pk_def Let_def
        Profile_objects_create_def UserActivity_objects_create_def example_user_def
        provisioned_world_def)
qed

text \<open>The library that checks the signature first shares the provider of the example.\<close>

lemma checking_get_jwks:
  "get_jwks checking_env empty_world
     = (Inr example_jwks,
        empty_world\<lparr>cache := [CACHE_KEY \<mapsto> (example_jwks, None)],
          effects := [HttpGet ''https://clerk.example.com/.well-known/jwks.json'' []]\<rparr>)"
  by (simp add: get_jwks_def cache_get_def requests_get_def jwks_url_def cache_set_def
      checking_env_def example_env_def empty_world_def)

lemma checking_public_key:
  "public_key_of checking_env example_jwks = Inr (RSAPublicKey 1 65537)"
  by (simp add: public_key_of_def example_jwks_def checking_env_def example_env_def)

subsection \<open>The authentication adapter\<close>

text \<open>C8: a request without an \<^verbatim>\<open>Authorization\<close> header is answered with \<^verbatim>\<open>None\<close>; nothing
  is raised and the world is left as it was.\<close>

theorem authenticate_no_header:
  "headers req ''Authorization'' = None \<Longrightarrow> authenticate e w req = (Inr None, w)"
  by (simp add: authenticate_def)

text \<open>C8 on the example: a request with no header at all.\<close>

theorem authenticate_no_header_witness:
  "headers \<lparr>headers = Map.empty\<rparr> ''Authorization'' = None \<and>
   authenticate example_env empty_world \<lparr>headers = Map.empty\<rparr> = (Inr None, empty_world)"
  using authenticate_no_header [of "\<lparr>headers = Map.empty\<rparr>" example_env empty_world]
  by simp

text \<open>C7 as stated fails for a header that is present and empty: it holds no space, yet
  the guard \<^verbatim>\<open>if not auth_header\<close> answers \<^verbatim>\<open>None\<close> before the token is extracted.\<close>

theorem authenticate_empty_header_counterexample:
  "CHR '' '' \<notin> set '''' \<and>
   authenticate example_env empty_world \<lparr>headers = [''Authorization'' \<mapsto> '''']\<rparr>
     = (Inr None, empty_world)"
  by (simp add: authenticate_def)

text \<open>C7, amended: a header value that is not empty and holds no space makes
  \<^verbatim>\<open>authenticate\<close> fail with \<^verbatim>\<open>AuthenticationFailed("Bearer token not provided.")\<close>,
  before any collaborator is touched.\<close>

theorem authenticate_no_space:
  assumes "headers req ''Authorization'' = Some h" and "h \<noteq> []" and "CHR '' '' \<notin> set h"
  shows "authenticate e w req = (Inl (AuthenticationFailed ''Bearer token not provided.''), w)"
  using assms by (simp add: authenticate_def split_no_sep list_getitem_def)

text \<open>C7 on the example: the header \<^verbatim>\<open>Bearer\<close> with no token.\<close>

theorem authenticate_no_space_witness:
  "headers \<lparr>headers = [''Authorization'' \<mapsto> ''Bearer'']\<rparr> ''Authorization'' = Some ''Bearer'' \<and>
   ''Bearer'' \<noteq> [] \<and> CHR '' '' \<notin> set ''Bearer'' \<and>
   authenticate example_env empty_world \<lparr>headers = [''Authorization'' \<mapsto> ''Bearer'']\<rparr>
     = (Inl (AuthenticationFailed ''Bearer token not provided.''), empty_world)"
  using authenticate_no_space [of "\<lparr>headers = [''Authorization'' \<mapsto> ''Bearer'']\<rparr>" "''Bearer''"
      example_env empty_world]
  by simp

text \<open>
  C10: for a header value with at least one space, the token handed to \<^verbatim>\<open>decode_jwt\<close> is
  exactly the second space-separated component, the outcome of \<^verbatim>\<open>authenticate\<close> is that
  of \<^verbatim>\<open>decode_jwt\<close> on it, and it is never the failure "Bearer token not provided.";
  for the header \<^verbatim>\<open>Bearer\<close> followed by one space that component is the empty string.
\<close>

theorem authenticate_second_component:
  assumes "headers req ''Authorization'' = Some h" and "CHR '' '' \<in> set h"
  shows "authenticate e w req = with_credentials (decode_jwt e w (second_component h)) \<and>
         fst (authenticate e w req) \<noteq> Inl (AuthenticationFailed ''Bearer token not provided.'') \<and>
         second_component ''Bearer '' = []"
proof -
  from assms(2) have ne: "h \<noteq> []" by auto
  have tok: "list_getitem (split (CHR '' '') h) 1 = Inr (second_component h)"
    using split_second [OF assms(2)] by (simp add: second_component_def)
  have eq: "authenticate e w req = with_credentials (decode_jwt e w (second_component h))"
    using assms(1) ne tok by (simp add: authenticate_def with_credentials_def)
  have "fst (with_credentials (decode_jwt e w t)) \<noteq>
        Inl (AuthenticationFailed ''Bearer token not provided.'')" for t
    using decode_jwt_auth_message [of e w t "''Bearer token not provided.''"]
    by (auto simp: with_credentials_def split: prod.splits sum.splits option.splits)
  with eq show ?thesis by (simp add: second_component_def)
qed

text \<open>C10 on the example: the header \<^verbatim>\<open>Bearer\<close> with a trailing space hands the empty
  token to \<^verbatim>\<open>decode_jwt\<close>, which fetches the key set and fails on decoding.\<close>

theorem authenticate_second_component_witness:
  "headers \<lparr>headers = [''Authorization'' \<mapsto> ''Bearer '']\<rparr> ''Authorization'' = Some ''Bearer '' \<and>
   CHR '' '' \<in> set ''Bearer '' \<and>
   authenticate example_env empty_world \<lparr>headers = [''Authorization'' \<mapsto> ''Bearer '']\<rparr>
     = with_credentials (decode_jwt example_env empty_world (second_component ''Bearer '')) \<and>
   fst (authenticate example_env empty_world \<lparr>headers = [''Authorization'' \<mapsto> ''Bearer '']\<rparr>)
     \<noteq> Inl (AuthenticationFailed ''Bearer token not provided.'') \<and>
   second_component ''Bearer '' = []"
proof -
  have h1: "headers \<lparr>headers = [''Authorization'' \<mapsto> ''Bearer '']\<rparr> ''Authorization'' = Some ''Bearer ''"
    by simp
  have h2: "CHR '' '' \<in> set ''Bearer ''"
    by simp
  from authenticate_second_component [OF h1 h2, of example_env empty_world] h1 h2
  show ?thesis by blast
qed

subsection \<open>The key set cache\<close>

text \<open>
  C6 as stated fails twice. The test \<^verbatim>\<open>if not jwks_data\<close> is Python's truth test, so a
  cached value that counts as false (the empty object) does not prevent the request; and
  the test \<^verbatim>\<open>response.status_code == 200\<close> refuses every other status, the success
  status 204 included.
\<close>

theorem get_jwks_counterexample:
  "cache (cached_world (JObj [])) CACHE_KEY = Some (JObj [], None) \<and>
   effects (cached_world (JObj [])) = [] \<and>
   effects (snd (get_jwks example_env (cached_world (JObj []))))
     = [HttpGet ''https://clerk.example.com/.well-known/jwks.json'' []] \<and>
   status_code (http_get no_content_env (jwks_url no_content_env) []) = 204 \<and>
   fst (get_jwks no_content_env empty_world)
     = Inl (AuthenticationFailed ''Failed to fetch JWKS.'')"
  by (simp add: get_jwks_def cache_get_def requests_get_def jwks_url_def example_env_def
      no_content_env_def empty_world_def cached_world_def cache_set_def)

text \<open>
  C6, amended: when the cache holds under \<^verbatim>\<open>jwks_data\<close> a value that Python counts as
  true, \<^verbatim>\<open>get_jwks\<close> returns it and changes nothing (no HTTP request). Otherwise it sends
  exactly one GET to the JWKS endpoint, raises
  \<^verbatim>\<open>AuthenticationFailed("Failed to fetch JWKS.")\<close> if and only if the status is not 200,
  and on status 200 stores the body under \<^verbatim>\<open>jwks_data\<close> with no timeout argument and
  returns it.
\<close>

theorem get_jwks_cache:
  "(truthy (cache_get w CACHE_KEY) \<longrightarrow> get_jwks e w = (Inr (cache_get w CACHE_KEY), w)) \<and>
   (\<not> truthy (cache_get w CACHE_KEY) \<longrightarrow>
      effects (snd (get_jwks e w)) = effects w @ [HttpGet (jwks_url e) []] \<and>
      (fst (get_jwks e w) = Inl (AuthenticationFailed ''Failed to fetch JWKS.'')
         \<longleftrightarrow> status_code (http_get e (jwks_url e) []) \<noteq> 200) \<and>
      (status_code (http_get e (jwks_url e) []) = 200 \<longrightarrow>
         get_jwks e w =
           (Inr (body (http_get e (jwks_url e) [])),
            w\<lparr>cache := (cache w)(CACHE_KEY \<mapsto> (body (http_get e (jwks_url e) []), None)),
              effects := effects w @ [HttpGet (jwks_url e) []]\<rparr>)))"
  by (simp add: get_jwks_def Let_def requests_get_def cache_set_def)

text \<open>C6 on the example: a hit on the cached key set, a miss answered with 200, and a
  miss answered with 500.\<close>

theorem get_jwks_cache_witness:
  "truthy (cache_get (cached_world example_jwks) CACHE_KEY) \<and>
   get_jwks example_env (cached_world example_jwks)
     = (Inr example_jwks, cached_world example_jwks) \<and>
   \<not> truthy (cache_get empty_world CACHE_KEY) \<and>
   status_code (http_get example_env (jwks_url example_env) []) = 200 \<and>
   get_jwks example_env empty_world
     = (Inr example_jwks,
        empty_world\<lparr>cache := [CACHE_KEY \<mapsto> (example_jwks, None)],
          effects := [HttpGet ''https://clerk.example.com/.well-known/jwks.json'' []]\<rparr>) \<and>
   status_code (http_get failing_env (jwks_url failing_env) []) \<noteq> 200 \<and>
   fst (get_jwks failing_env empty_world) = Inl (AuthenticationFailed ''Failed to fetch JWKS.'')"
proof -
  let ?w = "cached_world example_jwks"
  have hit: "truthy (cache_get ?w CACHE_KEY)"
    by (simp add: cache_get_def example_jwks_def cached_world_def)
  have cg: "cache_get ?w CACHE_KEY = example_jwks"
    by (simp add: cache_get_def cached_world_def)
  have miss: "\<not> truthy (cache_get empty_world CACHE_KEY)"
    by (simp add: cache_get_def empty_world_def)
  have ok': "status_code (http_get example_env ''https://clerk.example.com/.well-known/jwks.json'' []) = 200"
    by (simp add: example_env_def)
  have bd': "body (http_get example_env ''https://clerk.example.com/.well-known/jwks.json'' []) = example_jwks"
    by (simp add: example_env_def)
  have ok: "status_code (http_get example_env (jwks_url example_env) []) = 200"
    by (simp add: example_jwks_url ok')
  have bad: "status_code (http_get failing_env (jwks_url failing_env) []) \<noteq> 200"
    by (simp add: failing_env_def)
  from get_jwks_cache [of ?w example_env] hit cg
  have a: "get_jwks example_env ?w = (Inr example_jwks, ?w)" by simp
  from get_jwks_cache [of empty_world example_env] miss
  have b: "get_jwks example_env empty_world
     = (Inr example_jwks,
        empty_world\<lparr>cache := [CACHE_KEY \<mapsto> (example_jwks, None)],
          effects := [HttpGet ''https://clerk.example.com/.well-known/jwks.json'' []]\<rparr>)"
    by (simp add: example_jwks_url ok' bd' empty_world_def)
  from get_jwks_cache [of empty_world failing_env] miss bad
  have c: "fst (get_jwks failing_env empty_world) = Inl (AuthenticationFailed ''Failed to fetch JWKS.'')"
    by blast
  from hit a miss ok b bad c show ?thesis by blast
qed

subsection \<open>The token verifier\<close>

text \<open>
  C9: when the key set that \<^verbatim>\<open>get_jwks\<close> returns is an object without a \<^verbatim>\<open>keys\<close> member,
  \<^verbatim>\<open>decode_jwt\<close> raises KeyError; when its \<^verbatim>\<open>keys\<close> member is the empty list, it raises
  IndexError. Neither is an \<^verbatim>\<open>AuthenticationFailed\<close>, and \<^verbatim>\<open>authenticate\<close> lets the same
  exception through for a request whose header carries a token.
\<close>

theorem decode_jwt_no_first_key:
  assumes "get_jwks e w = (Inr (JObj kvs), w1)"
    and "map_of kvs ''keys'' = None \<or> map_of kvs ''keys'' = Some (JArr [])"
    and "headers req ''Authorization'' = Some h" and "h \<noteq> []"
    and "list_getitem (split (CHR '' '') h) 1 = Inr token"
  shows "decode_jwt e w token =
           (Inl (if map_of kvs ''keys'' = None then KeyError else IndexError), w1) \<and>
         authenticate e w req =
           (Inl (if map_of kvs ''keys'' = None then KeyError else IndexError), w1)"
proof -
  have pk: "public_key_of e (JObj kvs) =
            Inl (if map_of kvs ''keys'' = None then KeyError else IndexError)"
    using assms(2) by (auto simp: public_key_of_def)
  have d: "decode_jwt e w token =
           (Inl (if map_of kvs ''keys'' = None then KeyError else IndexError), w1)"
    using assms(1) pk by (simp add: decode_jwt_def)
  have "authenticate e w req = with_credentials (decode_jwt e w token)"
    using assms(3-5) by (simp add: authenticate_def with_credentials_def)
  with d show ?thesis by (simp add: with_credentials_def)
qed

text \<open>C9 on the example: a cached key set whose list of keys is empty, and one that has
  no \<^verbatim>\<open>keys\<close> member.\<close>

theorem decode_jwt_no_first_key_witness:
  "get_jwks example_env (cached_world (JObj [(''keys'', JArr [])]))
     = (Inr (JObj [(''keys'', JArr [])]), cached_world (JObj [(''keys'', JArr [])])) \<and>
   map_of [(''keys'', JArr [])] ''keys'' = Some (JArr []) \<and>
   get_jwks example_env (cached_world (JObj [(''kty'', JStr ''RSA'')]))
     = (Inr (JObj [(''kty'', JStr ''RSA'')]), cached_world (JObj [(''kty'', JStr ''RSA'')])) \<and>
   map_of [(''kty'', JStr ''RSA'')] ''keys'' = None \<and>
   headers \<lparr>headers = [''Authorization'' \<mapsto> ''Bearer by_k2'']\<rparr> ''Authorization''
     = Some ''Bearer by_k2'' \<and>
   list_getitem (split (CHR '' '') ''Bearer by_k2'') 1 = Inr ''by_k2'' \<and>
   decode_jwt example_env (cached_world (JObj [(''keys'', JArr [])])) ''by_k2''
     = (Inl IndexError, cached_world (JObj [(''keys'', JArr [])])) \<and>
   authenticate example_env (cached_world (JObj [(''keys'', JArr [])]))
       \<lparr>headers = [''Authorization'' \<mapsto> ''Bearer by_k2'']\<rparr>
     = (Inl IndexError, cached_world (JObj [(''keys'', JArr [])])) \<and>
   decode_jwt example_env (cached_world (JObj [(''kty'', JStr ''RSA'')])) ''by_k2''
     = (Inl KeyError, cached_world (JObj [(''kty'', JStr ''RSA'')])) \<and>
   authenticate example_env (cached_world (JObj [(''kty'', JStr ''RSA'')]))
       \<lparr>headers = [''Authorization'' \<mapsto> ''Bearer by_k2'']\<rparr>
     = (Inl KeyError, cached_world (JObj [(''kty'', JStr ''RSA'')]))"
proof -
  let ?req = "\<lparr>headers = [''Authorization'' \<mapsto> ''Bearer by_k2'']\<rparr>"
  have g: "get_jwks example_env (cached_world (JObj (kv # kvs)))
             = (Inr (JObj (kv # kvs)), cached_world (JObj (kv # kvs)))" for kv kvs
    by (simp add: get_jwks_def cache_get_def Let_def cached_world_def)
  have k1: "map_of [(''keys'', JArr [])] ''keys'' = None \<or>
            map_of [(''keys'', JArr [])] ''keys'' = Some (JArr [])"
    by simp
  have k2: "map_of [(''kty'', JStr ''RSA'')] ''keys'' = None \<or>
            map_of [(''kty'', JStr ''RSA'')] ''keys'' = Some (JArr [])"
    by simp
  have h: "headers ?req ''Authorization'' = Some ''Bearer by_k2''" by simp
  have ne: "''Bearer by_k2'' \<noteq> []" by simp
  have t: "list_getitem (split (CHR '' '') ''Bearer by_k2'') 1 = Inr ''by_k2''"
    by (simp add: list_getitem_def)
  from decode_jwt_no_first_key [OF g k1 h ne t] decode_jwt_no_first_key [OF g k2 h ne t]
    g [of "(''keys'', JArr [])" "[]"] g [of "(''kty'', JStr ''RSA'')" "[]"] h t
  show ?thesis by simp
qed

text \<open>
  C1 as stated fails for an expired token whose signature is not valid against the
  selected key. The key set is obtained and entry 0 gives the selected key; the token
  \<^verbatim>\<open>expired_by_k2\<close> is expired and signed by the second key of the set. Under its own key
  \<^verbatim>\<open>jwt.decode\<close> reports the expiry, under the selected key it reports the signature
  (\<^verbatim>\<open>DecodeError\<close>) first, and \<^verbatim>\<open>decode_jwt\<close> fails with "Token decode error.", not with
  "Token has expired.".
\<close>

theorem decode_jwt_expired_counterexample:
  "get_jwks checking_env empty_world
     = (Inr example_jwks,
        empty_world\<lparr>cache := [CACHE_KEY \<mapsto> (example_jwks, None)],
          effects := [HttpGet ''https://clerk.example.com/.well-known/jwks.json'' []]\<rparr>) \<and>
   public_key_of checking_env example_jwks = Inr (RSAPublicKey 1 65537) \<and>
   expired (expired_token (RSAPublicKey 2 65537)) \<and>
   signature_valid (expired_token (RSAPublicKey 2 65537)) (RSAPublicKey 2 65537) \<and>
   \<not> signature_valid (expired_token (RSAPublicKey 2 65537)) (RSAPublicKey 1 65537) \<and>
   signature_then_expiry checking_env ''expired_by_k2'' (RSAPublicKey 2 65537)
     (expired_token (RSAPublicKey 2 65537)) \<and>
   signature_then_expiry checking_env ''expired_by_k2'' (RSAPublicKey 1 65537)
     (expired_token (RSAPublicKey 2 65537)) \<and>
   jwt_decode checking_env ''expired_by_k2'' (RSAPublicKey 2 65537) = Inl ExpiredSignatureError \<and>
   decode_jwt checking_env empty_world ''expired_by_k2''
     = (Inl (AuthenticationFailed ''Token decode error.''),
        empty_world\<lparr>cache := [CACHE_KEY \<mapsto> (example_jwks, None)],
          effects := [HttpGet ''https://clerk.example.com/.well-known/jwks.json'' []]\<rparr>)"
proof -
  have d2: "jwt_decode checking_env ''expired_by_k2'' (RSAPublicKey 2 65537)
              = Inl ExpiredSignatureError"
    by (simp add: checking_env_def)
  have d1: "jwt_decode checking_env ''expired_by_k2'' (RSAPublicKey 1 65537) = Inl DecodeError"
    by (simp add: checking_env_def)
  have f: "expired (expired_token (RSAPublicKey 2 65537)) \<and>
           signature_valid (expired_token (RSAPublicKey 2 65537)) (RSAPublicKey 2 65537) \<and>
           \<not> signature_valid (expired_token (RSAPublicKey 2 65537)) (RSAPublicKey 1 65537)"
    by (simp add: expired_token_def)
  have s2: "signature_then_expiry checking_env ''expired_by_k2'' (RSAPublicKey 2 65537)
              (expired_token (RSAPublicKey 2 65537))"
    using d2 by (simp add: signature_then_expiry_def expired_token_def)
  have s1: "signature_then_expiry checking_env ''expired_by_k2'' (RSAPublicKey 1 65537)
              (expired_token (RSAPublicKey 2 65537))"
    using d1 by (simp add: signature_then_expiry_def expired_token_def)
  have r: "decode_jwt checking_env empty_world ''expired_by_k2''
     = (Inl (AuthenticationFailed ''Token decode error.''),
        empty_world\<lparr>cache := [CACHE_KEY \<mapsto> (example_jwks, None)],
          effects := [HttpGet ''https://clerk.example.com/.well-known/jwks.json'' []]\<rparr>)"
    using d1 by (simp add: decode_jwt_def decode_payload_def checking_get_jwks checking_public_key)
  from checking_get_jwks checking_public_key f s2 s1 d2 r show ?thesis by blast
qed

text \<open>
  C1, amended: once the key set is obtained and entry 0 gives the selected public key,
  a token whose expiry time has passed fails with
  \<^verbatim>\<open>AuthenticationFailed("Token has expired.")\<close> when its signature is valid against the
  selected key, and with \<^verbatim>\<open>AuthenticationFailed("Token decode error.")\<close> when it is not
  (\<^verbatim>\<open>jwt.decode\<close> checks the signature before the expiry). In both cases nothing but the
  key set fetch has happened: no user is looked up or created.
\<close>

theorem decode_jwt_expired:
  assumes "get_jwks e w = (Inr jwks_data, w1)"
    and "public_key_of e jwks_data = Inr key"
    and "signature_then_expiry e token key facts"
    and "expired facts"
  shows "decode_jwt e w token =
           (Inl (AuthenticationFailed
                   (if signature_valid facts key then ''Token has expired.''
                    else ''Token decode error.'')), w1)"
proof (cases "signature_valid facts key")
  case True
  with assms(3,4) have "jwt_decode e token key = Inl ExpiredSignatureError"
    by (simp add: signature_then_expiry_def)
  with assms(1,2) True show ?thesis
    by (simp add: decode_jwt_def decode_payload_def)
next
  case False
  with assms(3) have "jwt_decode e token key = Inl DecodeError"
    by (simp add: signature_then_expiry_def)
  with assms(1,2) False show ?thesis
    by (simp add: decode_jwt_def decode_payload_def)
qed

text \<open>C1 on the example: the token \<^verbatim>\<open>expired_by_k1\<close>, expired and signed by the selected
  key, against the published key set.\<close>

theorem decode_jwt_expired_witness:
  "get_jwks checking_env empty_world
     = (Inr example_jwks,
        empty_world\<lparr>cache := [CACHE_KEY \<mapsto> (example_jwks, None)],
          effects := [HttpGet ''https://clerk.example.com/.well-known/jwks.json'' []]\<rparr>) \<and>
   public_key_of checking_env example_jwks = Inr (RSAPublicKey 1 65537) \<and>
   signature_then_expiry checking_env ''expired_by_k1'' (RSAPublicKey 1 65537)
     (expired_token (RSAPublicKey 1 65537)) \<and>
   expired (expired_token (RSAPublicKey 1 65537)) \<and>
   signature_valid (expired_token (RSAPublicKey 1 65537)) (RSAPublicKey 1 65537) \<and>
   decode_jwt checking_env empty_world ''expired_by_k1''
     = (Inl (AuthenticationFailed ''Token has expired.''),
        empty_world\<lparr>cache := [CACHE_KEY \<mapsto> (example_jwks, None)],
          effects := [HttpGet ''https://clerk.example.com/.well-known/jwks.json'' []]\<rparr>)"
proof -
  have a: "signature_then_expiry checking_env ''expired_by_k1'' (RSAPublicKey 1 65537)
             (expired_token (RSAPublicKey 1 65537))"
    by (simp add: signature_then_expiry_def expired_token_def checking_env_def)
  have b: "expired (expired_token (RSAPublicKey 1 65537))"
    by (simp add: expired_token_def)
  have c: "signature_valid (expired_token (RSAPublicKey 1 65537)) (RSAPublicKey 1 65537)"
    by (simp add: expired_token_def)
  from decode_jwt_expired [OF checking_get_jwks checking_public_key a b] c
  have "decode_jwt checking_env empty_world ''expired_by_k1''
     = (Inl (AuthenticationFailed ''Token has expired.''),
        empty_world\<lparr>cache := [CACHE_KEY \<mapsto> (example_jwks, None)],
          effects := [HttpGet ''https://clerk.example.com/.well-known/jwks.json'' []]\<rparr>)"
    by simp
  with checking_get_jwks checking_public_key a b c show ?thesis by blast
qed

text \<open>
  C2: the key handed to \<^verbatim>\<open>jwt.decode\<close> is the one derived from entry 0 of the key set,
  whatever the token and whatever the other entries. So a token that verifies under a
  key \<open>k\<close> further down the list, and not under the key of entry 0, is rejected with
  the failure that \<^verbatim>\<open>jwt.decode\<close> reports for entry 0.
\<close>

theorem decode_jwt_first_key_only:
  assumes "get_jwks e w = (Inr jwks_data, w1)"
    and "getitem_key jwks_data ''keys'' = Inr (JArr (k0 # ks))"
    and "from_jwk e k0 = Some key0"
    and "k \<in> set ks" and "from_jwk e k = Some key"
    and "jwt_decode e token key = Inr p"
    and "jwt_decode e token key0 = Inl x"
  shows "public_key_of e jwks_data = Inr key0 \<and>
         decode_jwt e w token = (Inl (jwt_failure x), w1)"
  using assms by (simp add: decode_jwt_def decode_payload_def public_key_of_def)

text \<open>C2 on the example: the token \<^verbatim>\<open>by_k2\<close> verifies under the second key of the set
  and is rejected.\<close>

theorem decode_jwt_first_key_only_witness:
  "get_jwks example_env empty_world
     = (Inr example_jwks,
        empty_world\<lparr>cache := [CACHE_KEY \<mapsto> (example_jwks, None)],
          effects := [HttpGet ''https://clerk.example.com/.well-known/jwks.json'' []]\<rparr>) \<and>
   getitem_key example_jwks ''keys''
     = Inr (JArr [JObj [(''kid'', JStr ''k1'')], JObj [(''kid'', JStr ''k2'')]]) \<and>
   from_jwk example_env (JObj [(''kid'', JStr ''k1'')]) = Some (RSAPublicKey 1 65537) \<and>
   JObj [(''kid'', JStr ''k2'')] \<in> set [JObj [(''kid'', JStr ''k2'')]] \<and>
   from_jwk example_env (JObj [(''kid'', JStr ''k2'')]) = Some (RSAPublicKey 2 65537) \<and>
   jwt_decode example_env ''by_k2'' (RSAPublicKey 2 65537) = Inr \<lparr>sub = Some ''user_123''\<rparr> \<and>
   jwt_decode example_env ''by_k2'' (RSAPublicKey 1 65537) = Inl DecodeError \<and>
   public_key_of example_env example_jwks = Inr (RSAPublicKey 1 65537) \<and>
   decode_jwt example_env empty_world ''by_k2''
     = (Inl (AuthenticationFailed ''Token decode error.''),
        empty_world\<lparr>cache := [CACHE_KEY \<mapsto> (example_jwks, None)],
          effects := [HttpGet ''https://clerk.example.com/.well-known/jwks.json'' []]\<rparr>)"
proof -
  have a: "getitem_key example_jwks ''keys''
     = Inr (JArr (JObj [(''kid'', JStr ''k1'')] # [JObj [(''kid'', JStr ''k2'')]]))"
    by (simp add: example_jwks_def)
  have b: "from_jwk example_env (JObj [(''kid'', JStr ''k1'')]) = Some (RSAPublicKey 1 65537)"
    by (simp add: example_env_def)
  have c: "JObj [(''kid'', JStr ''k2'')] \<in> set [JObj [(''kid'', JStr ''k2'')]]"
    by simp
  have d: "from_jwk example_env (JObj [(''kid'', JStr ''k2'')]) = Some (RSAPublicKey 2 65537)"
    by (simp add: example_env_def)
  have f: "jwt_decode example_env ''by_k2'' (RSAPublicKey 2 65537) = Inr \<lparr>sub = Some ''user_123''\<rparr>"
    by (simp add: example_env_def)
  have g: "jwt_decode example_env ''by_k2'' (RSAPublicKey 1 65537) = Inl DecodeError"
    by (simp add: example_env_def)
  from decode_jwt_first_key_only [OF example_get_jwks a b c d f g] example_get_jwks a b c d f g
  show ?thesis by simp
qed

subsection \<open>The user provisioner\<close>

text \<open>
  C3: for the subject \<^verbatim>\<open>user_123\<close> with no local user, when the user-info request is sent
  (nothing usable is cached for the subject) and the provider answers 200 with the body
  \<open>user_123_body\<close>, provisioning returns a new user with username \<^verbatim>\<open>user_123\<close> and email
  \<^verbatim>\<open>a@b.com\<close>; the user table, the profile table and the activity table each grow by
  exactly one row, the last two referring to the new user; and the rows are created in
  the order user, profile, activity.
\<close>

theorem provisioning_new_user:
  assumes "''user_123'' \<notin> set (map username (users w))"
    and "\<not> truthy (cache_get w (user_info_key ''user_123''))"
    and "http_get e (user_info_url ''user_123'') (user_info_headers e)
           = \<lparr>status_code = 200, body = user_123_body\<rparr>"
  shows "get_or_create_user e w ''user_123'' =
     (let u = \<lparr>pk = fresh_pk (users w), username = ''user_123'', first_name = JStr ''A'',
                last_name = JStr ''B'', email = JStr ''a@b.com''\<rparr>;
          p = \<lparr>profile_user = pk u\<rparr>;
          a = \<lparr>activity_user = pk u\<rparr>
      in (Inr u,
          w\<lparr>cache := (cache w)(user_info_key ''user_123'' \<mapsto> (user_123_body, Some 86400)),
            users := users w @ [u],
            profiles := profiles w @ [p],
            activities := activities w @ [a],
            effects := effects w @
              [HttpGet (user_info_url ''user_123'') (user_info_headers e),
               UserCreate u, ProfileCreate p, UserActivityCreate a]\<rparr>))"
proof -
  let ?w1 = "w\<lparr>effects := effects w @ [HttpGet (user_info_url ''user_123'') (user_info_headers e)]\<rparr>"
  let ?w2 = "cache_set ?w1 (user_info_key ''user_123'') user_123_body (Some 86400)"
  have f: "fetch_user_info e w ''user_123'' =
           (Inr (\<lparr>info_email_address = JStr ''a@b.com'', info_first_name = JStr ''A'',
                   info_last_name = JStr ''B'',
                   info_last_login = Some (UtcMillis 1700000000000)\<rparr>, True), ?w2)"
    using assms(2,3) by (simp add: fetch_user_info_def requests_get_def user_info_of_user_123)
  have g: "User_objects_get w ''user_123'' = Inl DoesNotExist"
    using assms(1) by (rule User_objects_get_absent)
  show ?thesis
    using assms(1)
    by (simp add: get_or_create_user_def g f User_objects_create_def cache_set_def Let_def
        Profile_objects_create_def UserActivity_objects_create_def)
qed

text \<open>C3 on the example: the empty world.\<close>

theorem provisioning_new_user_witness:
  "''user_123'' \<notin> set (map username (users empty_world)) \<and>
   \<not> truthy (cache_get empty_world (user_info_key ''user_123'')) \<and>
   http_get example_env (user_info_url ''user_123'') (user_info_headers example_env)
     = \<lparr>status_code = 200, body = user_123_body\<rparr> \<and>
   get_or_create_user example_env empty_world ''user_123'' = (Inr example_user, provisioned_world)"
proof -
  have a: "''user_123'' \<notin> set (map username (users empty_world))"
    by (simp add: empty_world_def)
  have b: "\<not> truthy (cache_get empty_world (user_info_key ''user_123''))"
    by (simp add: cache_get_def empty_world_def)
  have c: "http_get example_env (user_info_url ''user_123'') (user_info_headers example_env)
     = \<lparr>status_code = 200, body = user_123_body\<rparr>"
    by (simp add: example_user_info_url) (simp add: example_env_def)
  have k: "user_info_key ''user_123'' = ''user_info_user_123''"
    by (simp add: user_info_key_def)
  from provisioning_new_user [OF a b c]
  have "get_or_create_user example_env empty_world ''user_123''
          = (Inr example_user, provisioned_world)"
    by (simp add: Let_def example_user_info_headers k example_user_info_url fresh_pk_def
        empty_world_def example_user_def provisioned_world_def)
  with a b c show ?thesis by blast
qed

text \<open>
  C4: when usernames are unique and a local user with the subject's username exists,
  provisioning returns that very row and leaves the world as it was: no field changes,
  no row is created, no request is sent. And after any provisioning call that returned
  a user, a second call for the same subject returns the same user and changes nothing,
  even when the provider would now answer differently.
\<close>

theorem provisioning_existing_user:
  "(distinct (map username (users w)) \<and> u \<in> set (users w) \<longrightarrow>
      get_or_create_user e w (username u) = (Inr u, w)) \<and>
   (get_or_create_user e w user_id = (Inr u', w') \<longrightarrow>
      get_or_create_user e' w' user_id = (Inr u', w'))"
proof (intro conjI impI)
  assume "distinct (map username (users w)) \<and> u \<in> set (users w)"
  then have "User_objects_get w (username u) = Inr u"
    by (simp add: User_objects_get_present)
  then show "get_or_create_user e w (username u) = (Inr u, w)"
    by (simp add: get_or_create_user_def)
next
  assume first: "get_or_create_user e w user_id = (Inr u', w')"
  show "get_or_create_user e' w' user_id = (Inr u', w')"
  proof (cases "User_objects_get w user_id")
    case (Inr u0)
    with first have "u' = u0" and "w' = w"
      by (simp_all add: get_or_create_user_def)
    with Inr show ?thesis by (simp add: get_or_create_user_def)
  next
    case (Inl x)
    with first have x: "x = DoesNotExist"
      by (cases x) (simp_all add: get_or_create_user_def)
    have none: "filter (\<lambda>v. username v = user_id) (users w) = []"
      using Inl x by (auto simp: User_objects_get_def split: list.splits)
    obtain r w1 where f: "fetch_user_info e w user_id = (r, w1)"
      by (cases "fetch_user_info e w user_id")
    have uw: "users w1 = users w"
      using f by (auto simp: fetch_user_info_def Let_def requests_get_def cache_set_def
          split: if_splits sum.splits)
    from first Inl x f obtain info found w2 where
      r: "r = Inr (info, found)" and
      c: "User_objects_create w1 user_id (info_first_name info) (info_last_name info)
            (info_email_address info) = Inr (u', w2)" and
      w': "w' = UserActivity_objects_create (Profile_objects_create w2 u') u'"
      by (auto simp: get_or_create_user_def split: sum.splits prod.splits)
    from c have "username u' = user_id" and "users w2 = users w1 @ [u']"
      by (auto simp: User_objects_create_def Let_def split: if_splits)
    with w' uw have "users w' = users w @ [u']"
      by (simp add: UserActivity_objects_create_def Profile_objects_create_def Let_def)
    with none \<open>username u' = user_id\<close> have "User_objects_get w' user_id = Inr u'"
      by (simp add: User_objects_get_def)
    then show ?thesis by (simp add: get_or_create_user_def)
  qed
qed

text \<open>C4 on the example: \<^verbatim>\<open>user_123\<close> is provisioned in the empty world; a second call,
  against a provider that is now down, returns the same row and changes nothing.\<close>

theorem provisioning_existing_user_witness:
  "distinct (map username (users provisioned_world)) \<and>
   example_user \<in> set (users provisioned_world) \<and>
   get_or_create_user failing_env provisioned_world (username example_user)
     = (Inr example_user, provisioned_world) \<and>
   get_or_create_user example_env empty_world ''user_123''
     = (Inr example_user, provisioned_world) \<and>
   get_or_create_user failing_env provisioned_world ''user_123''
     = (Inr example_user, provisioned_world)"
proof -
  have a: "distinct (map username (users provisioned_world)) \<and>
           example_user \<in> set (users provisioned_world)"
    by (simp add: provisioned_world_def)
  from provisioning_existing_user [of provisioned_world example_user failing_env] a
  have b: "get_or_create_user failing_env provisioned_world (username example_user)
          = (Inr example_user, provisioned_world)"
    by blast
  from provisioning_existing_user
    [of empty_world _ example_env "''user_123''" example_user provisioned_world failing_env]
    example_provisioning
  have c: "get_or_create_user failing_env provisioned_world ''user_123''
          = (Inr example_user, provisioned_world)"
    by blast
  from a b c example_provisioning show ?thesis by blast
qed

text \<open>
  C5: when nothing usable is cached for the subject and the provider answers the
  user-info request with a status other than 200, \<^verbatim>\<open>fetch_user_info\<close> raises nothing and
  returns the record of empty strings with no last login, and the flag \<^verbatim>\<open>False\<close>; and
  when the subject has no local user, provisioning still creates one, with the empty
  string as first name, last name and email, together with its profile and activity
  rows.
\<close>

theorem provisioning_provider_failure:
  assumes "\<not> truthy (cache_get w (user_info_key user_id))"
    and "status_code (http_get e (user_info_url user_id) (user_info_headers e)) \<noteq> 200"
  shows "fetch_user_info e w user_id =
           (Inr (\<lparr>info_email_address = JStr [], info_first_name = JStr [],
                   info_last_name = JStr [], info_last_login = None\<rparr>, False),
            w\<lparr>effects := effects w @ [HttpGet (user_info_url user_id) (user_info_headers e)]\<rparr>) \<and>
         (user_id \<notin> set (map username (users w)) \<longrightarrow>
            get_or_create_user e w user_id =
              (let u = \<lparr>pk = fresh_pk (users w), username = user_id, first_name = JStr [],
                         last_name = JStr [], email = JStr []\<rparr>;
                   p = \<lparr>profile_user = pk u\<rparr>;
                   a = \<lparr>activity_user = pk u\<rparr>
               in (Inr u,
                   w\<lparr>users := users w @ [u],
                     profiles := profiles w @ [p],
                     activities := activities w @ [a],
                     effects := effects w @
                       [HttpGet (user_info_url user_id) (user_info_headers e),
                        UserCreate u, ProfileCreate p, UserActivityCreate a]\<rparr>)))"
proof -
  have f: "fetch_user_info e w user_id =
           (Inr (\<lparr>info_email_address = JStr [], info_first_name = JStr [],
                   info_last_name = JStr [], info_last_login = None\<rparr>, False),
            w\<lparr>effects := effects w @ [HttpGet (user_info_url user_id) (user_info_headers e)]\<rparr>)"
    using assms by (simp add: fetch_user_info_def requests_get_def)
  have "get_or_create_user e w user_id =
              (let u = \<lparr>pk = fresh_pk (users w), username = user_id, first_name = JStr [],
                         last_name = JStr [], email = JStr []\<rparr>;
                   p = \<lparr>profile_user = pk u\<rparr>;
                   a = \<lparr>activity_user = pk u\<rparr>
               in (Inr u,
                   w\<lparr>users := users w @ [u],
                     profiles := profiles w @ [p],
                     activities := activities w @ [a],
                     effects := effects w @
                       [HttpGet (user_info_url user_id) (user_info_headers e),
                        UserCreate u, ProfileCreate p, UserActivityCreate a]\<rparr>))"
    if absent: "user_id \<notin> set (map username (users w))"
  proof -
    have g: "User_objects_get w user_id = Inl DoesNotExist"
      using absent by (rule User_objects_get_absent)
    show ?thesis
      using absent
      by (simp add: get_or_create_user_def g f User_objects_create_def Let_def
          Profile_objects_create_def UserActivity_objects_create_def)
  qed
  with f show ?thesis by blast
qed

text \<open>C5 on the example: the subject \<^verbatim>\<open>user_999\<close>, for which the provider answers 404.\<close>

theorem provisioning_provider_failure_witness:
  "\<not> truthy (cache_get empty_world (user_info_key ''user_999'')) \<and>
   status_code (http_get example_env (user_info_url ''user_999'') (user_info_headers example_env))
     \<noteq> 200 \<and>
   ''user_999'' \<notin> set (map username (users empty_world)) \<and>
   fetch_user_info example_env empty_world ''user_999'' =
     (Inr (\<lparr>info_email_address = JStr [], info_first_name = JStr [],
             info_last_name = JStr [], info_last_login = None\<rparr>, False),
      empty_world\<lparr>effects := [HttpGet ''https://api.clerk.com/v1/users/user_999''
                                 [(''Authorization'', ''Bearer sk_test'')]]\<rparr>) \<and>
   get_or_create_user example_env empty_world ''user_999'' =
     (Inr \<lparr>pk = 1, username = ''user_999'', first_name = JStr [], last_name = JStr [],
            email = JStr []\<rparr>,
      empty_world
        \<lparr>users := [\<lparr>pk = 1, username = ''user_999'', first_name = JStr [],
                     last_name = JStr [], email = JStr []\<rparr>],
         profiles := [\<lparr>profile_user = 1\<rparr>],
         activities := [\<lparr>activity_user = 1\<rparr>],
         effects := [HttpGet ''https://api.clerk.com/v1/users/user_999''
                       [(''Authorization'', ''Bearer sk_test'')],
                     UserCreate \<lparr>pk = 1, username = ''user_999'', first_name = JStr [],
                       last_name = JStr [], email = JStr []\<rparr>,
                     ProfileCreate \<lparr>profile_user = 1\<rparr>,
                     UserActivityCreate \<lparr>activity_user = 1\<rparr>]\<rparr>)"
proof -
  have url: "user_info_url ''user_999'' = ''https://api.clerk.com/v1/users/user_999''"
    by (simp add: user_info_url_def CLERK_API_URL_def)
  have a: "\<not> truthy (cache_get empty_world (user_info_key ''user_999''))"
    by (simp add: cache_get_def empty_world_def)
  have b: "status_code (http_get example_env (user_info_url ''user_999'')
             (user_info_headers example_env)) \<noteq> 200"
    by (simp add: url) (simp add: example_env_def)
  have c: "''user_999'' \<notin> set (map username (users empty_world))"
    by (simp add: empty_world_def)
  from provisioning_provider_failure [OF a b] c
  have "fetch_user_info example_env empty_world ''user_999'' =
     (Inr (\<lparr>info_email_address = JStr [], info_first_name = JStr [],
             info_last_name = JStr [], info_last_login = None\<rparr>, False),
      empty_world\<lparr>effects := [HttpGet ''https://api.clerk.com/v1/users/user_999''
                                 [(''Authorization'', ''Bearer sk_test'')]]\<rparr>)"
    and "get_or_create_user example_env empty_world ''user_999'' =
     (Inr \<lparr>pk = 1, username = ''user_999'', first_name = JStr [], last_name = JStr [],
            email = JStr []\<rparr>,
      empty_world
        \<lparr>users := [\<lparr>pk = 1, username = ''user_999'', first_name = JStr [],
                     last_name = JStr [], email = JStr []\<rparr>],
         profiles := [\<lparr>profile_user = 1\<rparr>],
         activities := [\<lparr>activity_user = 1\<rparr>],
         effects := [HttpGet ''https://api.clerk.com/v1/users/user_999''
                       [(''Authorization'', ''Bearer sk_test'')],
                     UserCreate \<lparr>pk = 1, username = ''user_999'', first_name = JStr [],
                       last_name = JStr [], email = JStr []\<rparr>,
                     ProfileCreate \<lparr>profile_user = 1\<rparr>,
                     UserActivityCreate \<lparr>activity_user = 1\<rparr>]\<rparr>)"
    by (simp_all add: Let_def url example_user_info_headers fresh_pk_def empty_world_def)
  with a b c show ?thesis by blast
qed

end
